theory Spec2Isabelle
  imports Complex_Main
begin

section \<open>Data model of \<open>src/utils/performance-testing.ts\<close>\<close>

text \<open>
  A JavaScript \<open>number\<close> that holds a measurement is a \<open>real\<close>; an optional field
  (\<open>number | undefined\<close>) is a \<open>real option\<close>. Counts that come from \<open>Array.length\<close>
  or from a byte counter are \<open>nat\<close>. Rounding of IEEE doubles is not modelled.
  Where two interfaces of the source share a field name, the later record carries a
  suffix, since record fields are global constants here.
\<close>

record WebVitals =
  firstContentfulPaint :: "real option"
  largestContentfulPaint :: "real option"
  domContentLoaded :: "real option"
  loadComplete :: "real option"
  firstByte :: "real option"

record SlowestResource =
  name :: string
  duration :: real

record ResourceMetrics =
  totalResources :: nat
  totalSize :: nat
  slowestResource :: SlowestResource
  resourceTypes :: "string \<rightharpoonup> nat"

record MemorySnapshot =
  usedJSHeapSize :: nat
  totalJSHeapSize :: nat
  jsHeapSizeLimit :: nat

record PerformanceMetrics =
  webVitals :: WebVitals
  resources :: ResourceMetrics
  memory :: "MemorySnapshot option"

record PerformanceScores =
  overall :: real
  firstContentfulPaintScore :: real
  largestContentfulPaintScore :: real
  loadTime :: real
  resourceEfficiency :: real

record NetworkConditions =
  downloadThroughput :: real
  uploadThroughput :: real
  latency :: real

record PerformanceAnalysis =
  url :: string
  timestamp :: string
  metrics :: PerformanceMetrics
  scores :: PerformanceScores
  recommendations :: "string list"
  networkConditions :: "NetworkConditions option"

section \<open>Score Calculator\<close>

text \<open>
  \<open>Object.values(scores)\<close> lists the own properties in insertion order; the object
  literal of the source creates \<open>overall\<close> first.
\<close>

definition objectValues :: "PerformanceScores \<Rightarrow> real list" where
  "objectValues s =
     [overall s, firstContentfulPaintScore s, largestContentfulPaintScore s,
      loadTime s, resourceEfficiency s]"

text \<open>
  The guard \<open>if (metrics.webVitals.x)\<close> is JavaScript truthiness: it fails for
  \<open>undefined\<close> and for the number \<open>0\<close> alike. The source is one method that mutates
  the object \<open>scores\<close> block by block; each block is one function here, taking the
  object and returning it updated, in the order of the source.
\<close>

definition initialScores :: PerformanceScores where
  "initialScores =
     \<lparr>overall = 0, firstContentfulPaintScore = 0, largestContentfulPaintScore = 0,
      loadTime = 0, resourceEfficiency = 0\<rparr>"

definition scoreFCP :: "PerformanceMetrics \<Rightarrow> PerformanceScores \<Rightarrow> PerformanceScores" where
  "scoreFCP m s =
     (case firstContentfulPaint (webVitals m) of
        None \<Rightarrow> s
      | Some v \<Rightarrow>
          if v = 0 then s
          else if v \<le> 1800 then s\<lparr>firstContentfulPaintScore := 100\<rparr>
          else if v \<le> 3000 then s\<lparr>firstContentfulPaintScore := 75\<rparr>
          else if v \<le> 4200 then s\<lparr>firstContentfulPaintScore := 50\<rparr>
          else s\<lparr>firstContentfulPaintScore := 25\<rparr>)"

definition scoreLCP :: "PerformanceMetrics \<Rightarrow> PerformanceScores \<Rightarrow> PerformanceScores" where
  "scoreLCP m s =
     (case largestContentfulPaint (webVitals m) of
        None \<Rightarrow> s
      | Some v \<Rightarrow>
          if v = 0 then s
          else if v \<le> 2500 then s\<lparr>largestContentfulPaintScore := 100\<rparr>
          else if v \<le> 4000 then s\<lparr>largestContentfulPaintScore := 75\<rparr>
          else s\<lparr>largestContentfulPaintScore := 25\<rparr>)"

definition scoreLoadTime :: "PerformanceMetrics \<Rightarrow> PerformanceScores \<Rightarrow> PerformanceScores" where
  "scoreLoadTime m s =
     (case loadComplete (webVitals m) of
        None \<Rightarrow> s
      | Some v \<Rightarrow>
          if v = 0 then s
          else if v \<le> 2000 then s\<lparr>loadTime := 100\<rparr>
          else if v \<le> 4000 then s\<lparr>loadTime := 75\<rparr>
          else if v \<le> 6000 then s\<lparr>loadTime := 50\<rparr>
          else s\<lparr>loadTime := 25\<rparr>)"

definition scoreResources :: "PerformanceMetrics \<Rightarrow> PerformanceScores \<Rightarrow> PerformanceScores" where
  "scoreResources m s =
     (if totalResources (resources m) \<le> 50 then s\<lparr>resourceEfficiency := 100\<rparr>
      else if totalResources (resources m) \<le> 100 then s\<lparr>resourceEfficiency := 75\<rparr>
      else if totalResources (resources m) \<le> 150 then s\<lparr>resourceEfficiency := 50\<rparr>
      else s\<lparr>resourceEfficiency := 25\<rparr>)"

definition scoreOverall :: "PerformanceScores \<Rightarrow> PerformanceScores" where
  "scoreOverall s =
     (let validScores = filter (\<lambda>x. x > 0) (objectValues s)
      in s\<lparr>overall :=
             (if length validScores > 0
              then foldl (\<lambda>sum score. sum + score) 0 validScores / real (length validScores)
              else 0)\<rparr>)"

definition calculatePerformanceScores :: "PerformanceMetrics \<Rightarrow> PerformanceScores" where
  "calculatePerformanceScores m =
     scoreOverall (scoreResources m (scoreLoadTime m (scoreLCP m (scoreFCP m initialScores))))"

section \<open>Recommendation Generator\<close>

text \<open>Decimal rendering of a count inside a template string.\<close>

definition digitChar :: "nat \<Rightarrow> char" where
  "digitChar d = char_of (of_char (CHR ''0'') + d)"

function numberToString :: "nat \<Rightarrow> string" where
  "numberToString n =
     (if n < 10 then [digitChar n] else numberToString (n div 10) @ [digitChar (n mod 10)])"
  by pat_completeness auto
termination
  by (relation "measure (\<lambda>n. n)") auto

declare numberToString.simps [simp del]

definition msgFCP :: string where
  "msgFCP = ''Optimize First Contentful Paint by reducing render-blocking resources''"

definition msgLCP :: string where
  "msgLCP = ''Improve Largest Contentful Paint by optimizing main content loading''"

definition msgResourceCount :: "nat \<Rightarrow> string" where
  "msgResourceCount n = ''Reduce number of resources (currently '' @ numberToString n @ '')''"

definition msgResourceSize :: string where
  "msgResourceSize = ''Optimize resource sizes - total transfer size is high''"

definition msgTTFB :: string where
  "msgTTFB = ''Improve server response time (TTFB)''"

text \<open>
  Each \<open>if\<close> of the source pushes at most one message; the list is built in the order of
  the checks. \<open>undefined > 600\<close> is \<open>false\<close> in JavaScript.
\<close>

definition generateRecommendations ::
  "PerformanceMetrics \<Rightarrow> PerformanceScores \<Rightarrow> string list" where
  "generateRecommendations m s =
     (if firstContentfulPaintScore s < 75 then [msgFCP] else []) @
     (if largestContentfulPaintScore s < 75 then [msgLCP] else []) @
     (if totalResources (resources m) > 100
      then [msgResourceCount (totalResources (resources m))] else []) @
     (if totalSize (resources m) > 2 * 1024 * 1024 then [msgResourceSize] else []) @
     (case firstByte (webVitals m) of
        None \<Rightarrow> []
      | Some v \<Rightarrow> if v > 600 then [msgTTFB] else [])"

section \<open>Telemetry Collector\<close>

text \<open>
  What the browser hands to the in-page script. A navigation entry carries the event
  timestamps; for entries of another type these fields are not read.
\<close>

record PerformanceEntry =
  entryType :: string
  entryName :: string
  startTime :: real
  domContentLoadedEventEnd :: real
  domContentLoadedEventStart :: real
  loadEventEnd :: real
  loadEventStart :: real
  responseStart :: real
  requestStart :: real

record ResourceTiming =
  resourceName :: string
  resourceResponseEnd :: real
  resourceRequestStart :: real
  initiatorType :: string
  transferSize :: "nat option"

definition emptyVitals :: WebVitals where
  "emptyVitals =
     \<lparr>firstContentfulPaint = None, largestContentfulPaint = None, domContentLoaded = None,
      loadComplete = None, firstByte = None\<rparr>"

text \<open>The body of \<open>entries.forEach\<close>: three independent \<open>if\<close>s on one entry.\<close>

definition observeEntry :: "PerformanceEntry \<Rightarrow> WebVitals \<Rightarrow> WebVitals" where
  "observeEntry entry vitals =
     (let v1 = (if entryType entry = ''navigation''
                then vitals\<lparr>domContentLoaded :=
                              Some (domContentLoadedEventEnd entry - domContentLoadedEventStart entry),
                            loadComplete := Some (loadEventEnd entry - loadEventStart entry),
                            firstByte := Some (responseStart entry - requestStart entry)\<rparr>
                else vitals);
          v2 = (if entryName entry = ''first-contentful-paint''
                then v1\<lparr>firstContentfulPaint := Some (startTime entry)\<rparr> else v1)
      in if entryName entry = ''largest-contentful-paint''
         then v2\<lparr>largestContentfulPaint := Some (startTime entry)\<rparr> else v2)"

text \<open>
  The body of \<open>resources.forEach\<close>. \<open>initiatorType || "other"\<close> replaces the empty
  string; \<open>(resourceTypes[type] || 0) + 1\<close> counts from 0 for a missing key;
  \<open>if (resource.transferSize)\<close> skips a missing and a zero size.
\<close>

definition collectResource :: "ResourceTiming \<Rightarrow> ResourceMetrics \<Rightarrow> ResourceMetrics" where
  "collectResource resource rm =
     (let d = resourceResponseEnd resource - resourceRequestStart resource;
          rm1 = (if d > duration (slowestResource rm)
                 then rm\<lparr>slowestResource := \<lparr>name = resourceName resource, duration = d\<rparr>\<rparr>
                 else rm);
          ty = (if initiatorType resource = [] then ''other'' else initiatorType resource);
          rm2 = rm1\<lparr>resourceTypes :=
                      (resourceTypes rm1)
                        (ty \<mapsto> (case resourceTypes rm1 ty of None \<Rightarrow> 0 | Some c \<Rightarrow> c) + 1)\<rparr>
      in case transferSize resource of
           None \<Rightarrow> rm2
         | Some sz \<Rightarrow> if sz = 0 then rm2 else rm2\<lparr>totalSize := totalSize rm2 + sz\<rparr>)"

text \<open>The callback of the \<open>PerformanceObserver\<close>: the value it passes to \<open>resolve\<close>.\<close>

definition observerCallback ::
  "PerformanceEntry list \<Rightarrow> ResourceTiming list \<Rightarrow> MemorySnapshot option \<Rightarrow> PerformanceMetrics" where
  "observerCallback entries rs mem =
     \<lparr>webVitals = fold observeEntry entries emptyVitals,
      resources =
        fold collectResource rs
          \<lparr>totalResources = length rs, totalSize = 0,
           slowestResource = \<lparr>name = [], duration = 0\<rparr>, resourceTypes = Map.empty\<rparr>,
      memory = mem\<rparr>"

text \<open>The value the fallback timer passes to \<open>resolve\<close>.\<close>

definition fallbackMetrics :: PerformanceMetrics where
  "fallbackMetrics =
     \<lparr>webVitals = emptyVitals,
      resources =
        \<lparr>totalResources = 0, totalSize = 0,
         slowestResource = \<lparr>name = [], duration = 0\<rparr>, resourceTypes = Map.empty\<rparr>,
      memory = None\<rparr>"

text \<open>
  One page load as the browser presents it to \<open>analyzePagePerformance\<close>:
  \<^item> \<open>navigationError\<close>: the message of the error that \<open>page.goto\<close> or
    \<open>waitForLoadState\<close> throws, if one does;
  \<^item> \<open>navigationTime\<close>: the milliseconds that pass in \<open>page.goto\<close> and
    \<open>waitForLoadState\<close> together, until they have returned or one of them throws;
  \<^item> \<open>firstDelivery\<close>: the first delivery of entries to the observer, if there is one,
    with its time in milliseconds after the script started. Later deliveries call
    \<open>resolve\<close> on a promise that is already settled and have no effect;
  \<^item> the resource timing entries and memory counters the page exposes then;
  \<^item> \<open>isoTime\<close>: the result of \<open>new Date().toISOString()\<close>.
\<close>

record PageLoad =
  navigationError :: "string option"
  navigationTime :: nat
  firstDelivery :: "(nat \<times> PerformanceEntry list) option"
  resourceEntries :: "ResourceTiming list"
  memoryCounters :: "MemorySnapshot option"
  isoTime :: string

definition fallbackTimeout :: nat where
  "fallbackTimeout = 5000"

text \<open>
  The promise inside \<open>page.evaluate\<close>: the observer callback and the timer race, the
  first \<open>resolve\<close> wins, and the timer disconnects the observer. The result is the time
  at which the promise settles and its value.
\<close>

definition evaluateMetrics :: "PageLoad \<Rightarrow> nat \<times> PerformanceMetrics" where
  "evaluateMetrics pl =
     (case firstDelivery pl of
        None \<Rightarrow> (fallbackTimeout, fallbackMetrics)
      | Some (t, entries) \<Rightarrow>
          if t < fallbackTimeout
          then (t, observerCallback entries (resourceEntries pl) (memoryCounters pl))
          else (fallbackTimeout, fallbackMetrics))"

text \<open>A thrown error is \<open>Inl\<close> of its message.\<close>

definition analyzePagePerformance :: "PageLoad \<Rightarrow> string \<Rightarrow> string + PerformanceAnalysis" where
  "analyzePagePerformance pl u =
     (case navigationError pl of
        Some msg \<Rightarrow> Inl msg
      | None \<Rightarrow>
          (let m = snd (evaluateMetrics pl);
               sc = calculatePerformanceScores m
           in Inr \<lparr>url = u, timestamp = isoTime pl, metrics = m, scores = sc,
                   recommendations = generateRecommendations m sc,
                   networkConditions = None\<rparr>))"


section \<open>Network Condition Controller\<close>

text \<open>
  The state is the network emulation of the browsing session, as set by the last
  \<open>Network.emulateNetworkConditions\<close> command. The commands sent over the CDP session
  are taken to succeed.
\<close>

record EmulatedConditions = NetworkConditions +
  offline :: bool

definition emulateNetworkConditions ::
  "EmulatedConditions \<Rightarrow> EmulatedConditions \<Rightarrow> EmulatedConditions" where
  "emulateNetworkConditions params session = params"

definition unconstrained :: EmulatedConditions where
  "unconstrained =
     \<lparr>downloadThroughput = - 1, uploadThroughput = - 1, latency = 0, offline = False\<rparr>"

text \<open>
  The source awaits the analysis between the two commands without \<open>try\<close>: when the
  analysis throws, the error leaves the method at that line.
\<close>

definition testWithThrottling ::
  "PageLoad \<Rightarrow> string \<Rightarrow> NetworkConditions \<Rightarrow> EmulatedConditions \<Rightarrow>
     (string + PerformanceAnalysis) \<times> EmulatedConditions" where
  "testWithThrottling pl u conditions session =
     (let session1 =
            emulateNetworkConditions
              \<lparr>downloadThroughput = downloadThroughput conditions,
               uploadThroughput = uploadThroughput conditions,
               latency = latency conditions, offline = False\<rparr> session
      in case analyzePagePerformance pl u of
           Inl err \<Rightarrow> (Inl err, session1)
         | Inr analysis \<Rightarrow>
             (Inr (analysis\<lparr>networkConditions := Some conditions\<rparr>),
              emulateNetworkConditions unconstrained session1))"

section \<open>Load Orchestrator\<close>

record LoadTestOptions =
  concurrent :: nat
  iterations :: nat
  delayBetweenBatches :: "nat option"

text \<open>
  In the summary a \<open>real option\<close> is a JavaScript number that a division or
  \<open>Math.min\<close>/\<open>Math.max\<close> produced: \<open>None\<close> stands for the non-finite results
  (\<open>NaN\<close> of \<open>0/0\<close>, \<open>\<plusminus>Infinity\<close> of an empty argument list).
\<close>

record Summary =
  totalRequests :: nat
  successfulRequests :: nat
  failedRequests :: nat
  successRate :: "real option"
  averageResponseTime :: "real option"
  minResponseTime :: "real option"
  maxResponseTime :: "real option"

record LoadTestResults =
  summary :: Summary
  errors :: "string list"
  loadRecommendations :: "string list"

definition jsDivide :: "real \<Rightarrow> real \<Rightarrow> real option" where
  "jsDivide a b = (if b = 0 then None else Some (a / b))"

fun mathMin :: "real list \<Rightarrow> real option" where
  "mathMin [] = None"
| "mathMin (x # xs) = Some (fold min xs x)"

fun mathMax :: "real list \<Rightarrow> real option" where
  "mathMax [] = None"
| "mathMax (x # xs) = Some (fold max xs x)"

text \<open>\<open>r.metrics.webVitals.loadComplete || 0\<close>\<close>

definition loadCompleteOrZero :: "PerformanceAnalysis \<Rightarrow> real" where
  "loadCompleteOrZero r =
     (case loadComplete (webVitals (metrics r)) of None \<Rightarrow> 0 | Some v \<Rightarrow> v)"

definition msgScaling :: string where
  "msgScaling = ''High average response time under load - consider server scaling''"

definition msgStability :: string where
  "msgStability = ''High error rate - check server stability and capacity''"

definition msgSignificance :: string where
  "msgSignificance = ''Consider running more iterations for better statistical significance''"

definition msgAllFailed :: string where
  "msgAllFailed = ''All requests failed - check server capacity and configuration''"

definition generateLoadTestRecommendations ::
  "PerformanceAnalysis list \<Rightarrow> string list \<Rightarrow> string list" where
  "generateLoadTestRecommendations results errs =
     (let avgLoad =
            jsDivide (foldl (\<lambda>sum r. sum + loadCompleteOrZero r) 0 results)
              (real (length results))
      in (case avgLoad of
            None \<Rightarrow> []
          | Some a \<Rightarrow> if a > 5000 then [msgScaling] else []) @
         (if real (length errs) > real (length results) * (1 / 10) then [msgStability] else []) @
         (if length results < 10 then [msgSignificance] else []))"

text \<open>
  The array \<open>results\<close> may hold \<open>null\<close> as far as this method is concerned: it filters
  them out itself. \<open>List.map_filter\<close> with the identity keeps the elements that are not
  \<open>None\<close>.
\<close>

definition analyzeLoadTestResults ::
  "PerformanceAnalysis option list \<Rightarrow> string list \<Rightarrow> LoadTestResults" where
  "analyzeLoadTestResults results errs =
     (let validResults = List.map_filter (\<lambda>r. r) results
      in if length validResults = 0
         then \<lparr>summary =
                 \<lparr>totalRequests = length results, successfulRequests = 0,
                  failedRequests = length errs, successRate = Some 0,
                  averageResponseTime = Some 0, minResponseTime = Some 0,
                  maxResponseTime = Some 0\<rparr>,
               errors = errs, loadRecommendations = [msgAllFailed]\<rparr>
         else
           (let responseTimes = map loadCompleteOrZero validResults;
                avgResponseTime =
                  jsDivide (foldl (\<lambda>sum time. sum + time) 0 responseTimes)
                    (real (length responseTimes))
            in \<lparr>summary =
                   \<lparr>totalRequests = length results,
                    successfulRequests = length validResults,
                    failedRequests = length errs,
                    successRate =
                      map_option (\<lambda>q. q * 100)
                        (jsDivide (real (length validResults)) (real (length results))),
                    averageResponseTime = avgResponseTime,
                    minResponseTime = mathMin responseTimes,
                    maxResponseTime = mathMax responseTimes\<rparr>,
                 errors = errs,
                 loadRecommendations = generateLoadTestRecommendations validResults errs\<rparr>))"

text \<open>
  What the browser does during a load test: the page load that slot \<open>i\<close> of batch \<open>b\<close>
  meets, and the time at which that slot settles. The slots of a batch run interleaved,
  so the \<open>catch\<close> handlers run in the order in which the slots settle (slots that settle
  together, in launch order).
\<close>

record LoadEnvironment =
  pageLoads :: "nat \<Rightarrow> nat \<Rightarrow> PageLoad"
  settleTime :: "nat \<Rightarrow> nat \<Rightarrow> nat"

definition slotError :: "nat \<Rightarrow> nat \<Rightarrow> string \<Rightarrow> string" where
  "slotError batch i msg =
     ''Batch '' @ numberToString batch @ '', User '' @ numberToString i @ '': '' @ msg"

text \<open>
  One iteration of the outer loop on the pair of arrays \<open>(results, errors)\<close>:
  every slot is awaited (\<open>Promise.all\<close> over promises that cannot reject), a slot that
  threw yields \<open>null\<close> and one line in \<open>errors\<close>, and only the results that are not
  \<open>null\<close> are pushed. The pause between batches changes neither array.
\<close>

definition runBatch ::
  "LoadEnvironment \<Rightarrow> string \<Rightarrow> LoadTestOptions \<Rightarrow> nat \<Rightarrow>
     PerformanceAnalysis option list \<times> string list \<Rightarrow>
     PerformanceAnalysis option list \<times> string list" where
  "runBatch env u opts batch acc =
     (let slots = [0..<concurrent opts];
          outcome = (\<lambda>i. analyzePagePerformance (pageLoads env batch i) u);
          caught =
            concat (map (\<lambda>i. case outcome i of
                               Inl msg \<Rightarrow> [slotError batch i msg]
                             | Inr _ \<Rightarrow> [])
                        (sort_key (settleTime env batch) slots));
          batchResults =
            map (\<lambda>i. case outcome i of Inl _ \<Rightarrow> None | Inr a \<Rightarrow> Some a) slots
      in (fst acc @ filter (\<lambda>r. r \<noteq> None) batchResults, snd acc @ caught))"

definition loadTest :: "LoadEnvironment \<Rightarrow> string \<Rightarrow> LoadTestOptions \<Rightarrow> LoadTestResults" where
  "loadTest env u opts =
     (let acc = fold (runBatch env u opts) [0..<iterations opts] ([], [])
      in analyzeLoadTestResults (fst acc) (snd acc))"

section \<open>Reference definitions and example inputs\<close>

text \<open>
  The mean as the specification words it: over the non-zero scores, and 0 when there is
  none.
\<close>

definition meanOfNonZero :: "real list \<Rightarrow> real" where
  "meanOfNonZero xs =
     (let nz = filter (\<lambda>x. x \<noteq> 0) xs
      in if nz = [] then 0 else sum_list nz / real (length nz))"

text \<open>The same metrics with another first-contentful-paint time.\<close>

definition withFCP :: "real \<Rightarrow> PerformanceMetrics \<Rightarrow> PerformanceMetrics" where
  "withFCP v m = m\<lparr>webVitals := (webVitals m)\<lparr>firstContentfulPaint := Some v\<rparr>\<rparr>"

definition exampleResources :: "nat \<Rightarrow> ResourceMetrics" where
  "exampleResources n =
     \<lparr>totalResources = n, totalSize = 4096,
      slowestResource = \<lparr>name = ''app.js'', duration = 120\<rparr>,
      resourceTypes = [''script'' \<mapsto> n]\<rparr>"

definition exampleMetrics :: PerformanceMetrics where
  "exampleMetrics =
     \<lparr>webVitals =
        \<lparr>firstContentfulPaint = Some 1000, largestContentfulPaint = Some 3000,
         domContentLoaded = Some 5, loadComplete = Some 5000, firstByte = Some 100\<rparr>,
      resources = exampleResources 51, memory = None\<rparr>"

definition onlyLoadObserved :: PerformanceMetrics where
  "onlyLoadObserved =
     \<lparr>webVitals = emptyVitals\<lparr>loadComplete := Some 1500\<rparr>,
      resources = exampleResources 200, memory = None\<rparr>"

definition zeroTimings :: PerformanceMetrics where
  "zeroTimings =
     \<lparr>webVitals =
        \<lparr>firstContentfulPaint = Some 0, largestContentfulPaint = Some 0,
         domContentLoaded = Some 0, loadComplete = Some 0, firstByte = Some 0\<rparr>,
      resources = exampleResources 120, memory = None\<rparr>"

text \<open>Page loads: one whose navigation entry arrives after 120 ms, one that takes 12
  seconds to become idle and where no entry ever arrives, one whose navigation fails.\<close>

definition navigationEntry :: PerformanceEntry where
  "navigationEntry =
     \<lparr>entryType = ''navigation'', entryName = ''https://playwright.dev/'', startTime = 0,
      domContentLoadedEventEnd = 310, domContentLoadedEventStart = 300,
      loadEventEnd = 1500, loadEventStart = 500, responseStart = 80, requestStart = 20\<rparr>"

definition quickLoad :: PageLoad where
  "quickLoad =
     \<lparr>navigationError = None, navigationTime = 800,
      firstDelivery = Some (120, [navigationEntry]),
      resourceEntries = [], memoryCounters = None, isoTime = ''2024-01-01T00:00:00.000Z''\<rparr>"


definition refusedLoad :: PageLoad where
  "refusedLoad =
     \<lparr>navigationError = Some ''net::ERR_CONNECTION_REFUSED'', navigationTime = 40,
      firstDelivery = None,
      resourceEntries = [], memoryCounters = None, isoTime = ''2024-01-01T00:00:00.000Z''\<rparr>"

definition slowConditions :: NetworkConditions where
  "slowConditions = \<lparr>downloadThroughput = 64000, uploadThroughput = 64000, latency = 400\<rparr>"

text \<open>Load tests: one where every slot of the first batch fails and the others succeed,
  one where every slot fails.\<close>

definition firstBatchFailing :: LoadEnvironment where
  "firstBatchFailing =
     \<lparr>pageLoads = (\<lambda>b i. if b = 0 then refusedLoad else quickLoad),
      settleTime = (\<lambda>b i. 0)\<rparr>"

definition allFailing :: LoadEnvironment where
  "allFailing = \<lparr>pageLoads = (\<lambda>b i. refusedLoad), settleTime = (\<lambda>b i. 10 - i)\<rparr>"

definition oneByTwo :: LoadTestOptions where
  "oneByTwo = \<lparr>concurrent = 1, iterations = 2, delayBetweenBatches = None\<rparr>"

definition twoByTwo :: LoadTestOptions where
  "twoByTwo = \<lparr>concurrent = 2, iterations = 2, delayBetweenBatches = Some 1000\<rparr>"

section \<open>Properties of the Score Calculator\<close>

lemma foldl_plus_sum_list: "foldl (\<lambda>sum score. sum + score) a xs = a + sum_list (xs::real list)"
  by (induction xs arbitrary: a) auto

lemma scoreFCP_fields:
  "overall (scoreFCP m s) = overall s"
  "largestContentfulPaintScore (scoreFCP m s) = largestContentfulPaintScore s"
  "loadTime (scoreFCP m s) = loadTime s"
  "resourceEfficiency (scoreFCP m s) = resourceEfficiency s"
  by (simp_all add: scoreFCP_def split: option.splits)

lemma scoreLCP_fields:
  "overall (scoreLCP m s) = overall s"
  "firstContentfulPaintScore (scoreLCP m s) = firstContentfulPaintScore s"
  "loadTime (scoreLCP m s) = loadTime s"
  "resourceEfficiency (scoreLCP m s) = resourceEfficiency s"
  by (simp_all add: scoreLCP_def split: option.splits)

lemma scoreLoadTime_fields:
  "overall (scoreLoadTime m s) = overall s"
  "firstContentfulPaintScore (scoreLoadTime m s) = firstContentfulPaintScore s"
  "largestContentfulPaintScore (scoreLoadTime m s) = largestContentfulPaintScore s"
  "resourceEfficiency (scoreLoadTime m s) = resourceEfficiency s"
  by (simp_all add: scoreLoadTime_def split: option.splits)

lemma scoreResources_fields:
  "overall (scoreResources m s) = overall s"
  "firstContentfulPaintScore (scoreResources m s) = firstContentfulPaintScore s"
  "largestContentfulPaintScore (scoreResources m s) = largestContentfulPaintScore s"
  "loadTime (scoreResources m s) = loadTime s"
  by (simp_all add: scoreResources_def)

lemma scoreOverall_fields:
  "firstContentfulPaintScore (scoreOverall s) = firstContentfulPaintScore s"
  "largestContentfulPaintScore (scoreOverall s) = largestContentfulPaintScore s"
  "loadTime (scoreOverall s) = loadTime s"
  "resourceEfficiency (scoreOverall s) = resourceEfficiency s"
  by (simp_all add: scoreOverall_def Let_def)

lemmas stage_fields = scoreFCP_fields scoreLCP_fields scoreLoadTime_fields
  scoreResources_fields scoreOverall_fields

lemma fcp_closed:
  "firstContentfulPaintScore (calculatePerformanceScores m) =
     (case firstContentfulPaint (webVitals m) of
        None \<Rightarrow> 0
      | Some v \<Rightarrow> if v = 0 then 0 else if v \<le> 1800 then 100 else if v \<le> 3000 then 75
                  else if v \<le> 4200 then 50 else 25)"
  by (simp add: calculatePerformanceScores_def stage_fields scoreFCP_def initialScores_def
           split: option.splits)

lemma lcp_closed:
  "largestContentfulPaintScore (calculatePerformanceScores m) =
     (case largestContentfulPaint (webVitals m) of
        None \<Rightarrow> 0
      | Some v \<Rightarrow> if v = 0 then 0 else if v \<le> 2500 then 100 else if v \<le> 4000 then 75 else 25)"
  by (simp add: calculatePerformanceScores_def stage_fields scoreLCP_def initialScores_def
           split: option.splits)

lemma load_closed:
  "loadTime (calculatePerformanceScores m) =
     (case loadComplete (webVitals m) of
        None \<Rightarrow> 0
      | Some v \<Rightarrow> if v = 0 then 0 else if v \<le> 2000 then 100 else if v \<le> 4000 then 75
                  else if v \<le> 6000 then 50 else 25)"
  by (simp add: calculatePerformanceScores_def stage_fields scoreLoadTime_def initialScores_def
           split: option.splits)

lemma res_closed:
  "resourceEfficiency (calculatePerformanceScores m) =
     (if totalResources (resources m) \<le> 50 then 100
      else if totalResources (resources m) \<le> 100 then 75
      else if totalResources (resources m) \<le> 150 then 50 else 25)"
  by (simp add: calculatePerformanceScores_def stage_fields scoreResources_def)

lemma overall_unfold:
  "overall (scoreOverall s) =
     (let vs = filter (\<lambda>x. x > 0) (objectValues s)
      in if vs = [] then 0 else sum_list vs / real (length vs))"
  by (simp add: scoreOverall_def Let_def foldl_plus_sum_list)




lemma overall_calc:
  "overall (calculatePerformanceScores m) =
     (let s = scoreResources m (scoreLoadTime m (scoreLCP m (scoreFCP m initialScores)));
          vs = filter (\<lambda>x. x > 0) (objectValues s)
      in if vs = [] then 0 else sum_list vs / real (length vs))"
  by (simp add: calculatePerformanceScores_def overall_unfold)

lemma components_nonneg:
  "0 \<le> firstContentfulPaintScore (calculatePerformanceScores m)"
  "0 \<le> largestContentfulPaintScore (calculatePerformanceScores m)"
  "0 \<le> loadTime (calculatePerformanceScores m)"
  "0 \<le> resourceEfficiency (calculatePerformanceScores m)"
  by (simp_all add: fcp_closed lcp_closed load_closed res_closed split: option.splits)

lemma filter_pos_nonzero:
  "\<forall>x \<in> set xs. (0::real) \<le> x \<Longrightarrow> filter (\<lambda>x. x > 0) xs = filter (\<lambda>x. x \<noteq> 0) xs"
  by (rule filter_cong) auto

lemma overall_closed:
  "overall (calculatePerformanceScores m) =
     meanOfNonZero
       [firstContentfulPaintScore (calculatePerformanceScores m),
        largestContentfulPaintScore (calculatePerformanceScores m),
        loadTime (calculatePerformanceScores m),
        resourceEfficiency (calculatePerformanceScores m)]"
proof -
  let ?s = "scoreResources m (scoreLoadTime m (scoreLCP m (scoreFCP m initialScores)))"
  let ?c = "calculatePerformanceScores m"
  let ?xs = "[firstContentfulPaintScore ?c, largestContentfulPaintScore ?c, loadTime ?c,
              resourceEfficiency ?c]"
  have vals: "objectValues ?s = 0 # ?xs"
    by (simp add: objectValues_def calculatePerformanceScores_def stage_fields initialScores_def)
  have "filter (\<lambda>x. x > 0) (objectValues ?s) = filter (\<lambda>x. x > 0) ?xs"
    by (simp only: vals filter.simps) simp
  also have "\<dots> = filter (\<lambda>x. x \<noteq> 0) ?xs"
    by (rule filter_pos_nonzero) (simp add: components_nonneg)
  finally have "filter (\<lambda>x. x > 0) (objectValues ?s) = filter (\<lambda>x. x \<noteq> 0) ?xs" .
  then show ?thesis
    by (simp only: overall_calc Let_def meanOfNonZero_def)
qed

lemma mean_bounds:
  fixes xs :: "real list"
  assumes "xs \<noteq> []" and "\<forall>x \<in> set xs. a \<le> x \<and> x \<le> b"
  shows "a \<le> sum_list xs / real (length xs) \<and> sum_list xs / real (length xs) \<le> b"
proof -
  have lo: "a * real (length ys) \<le> sum_list ys" if "\<forall>x \<in> set ys. a \<le> x" for ys
    using that by (induction ys) (auto simp: algebra_simps)
  have hi: "sum_list ys \<le> b * real (length ys)" if "\<forall>x \<in> set ys. x \<le> b" for ys
    using that by (induction ys) (auto simp: algebra_simps)
  have pos: "0 < real (length xs)" using assms(1) by simp
  from lo[of xs] hi[of xs] assms(2) pos show ?thesis
    by (simp add: pos_le_divide_eq pos_divide_le_eq)
qed

lemma component_range:
  "firstContentfulPaintScore (calculatePerformanceScores m) = 0 \<or>
     25 \<le> firstContentfulPaintScore (calculatePerformanceScores m) \<and>
     firstContentfulPaintScore (calculatePerformanceScores m) \<le> 100"
  "largestContentfulPaintScore (calculatePerformanceScores m) = 0 \<or>
     25 \<le> largestContentfulPaintScore (calculatePerformanceScores m) \<and>
     largestContentfulPaintScore (calculatePerformanceScores m) \<le> 100"
  "loadTime (calculatePerformanceScores m) = 0 \<or>
     25 \<le> loadTime (calculatePerformanceScores m) \<and>
     loadTime (calculatePerformanceScores m) \<le> 100"
  by (simp_all add: fcp_closed lcp_closed load_closed split: option.splits)

lemma resource_range:
  "25 \<le> resourceEfficiency (calculatePerformanceScores m) \<and>
   resourceEfficiency (calculatePerformanceScores m) \<le> 100"
  by (simp add: res_closed)

lemma filter_nonzero_range:
  fixes xs :: "real list"
  assumes "\<forall>x \<in> set xs. x = 0 \<or> a \<le> x \<and> x \<le> b"
  shows "\<forall>x \<in> set (filter (\<lambda>x. x \<noteq> 0) xs). a \<le> x \<and> x \<le> b"
  using assms by auto

lemma overall_bounds:
  "25 \<le> overall (calculatePerformanceScores m) \<and> overall (calculatePerformanceScores m) \<le> 100"
proof -
  let ?c = "calculatePerformanceScores m"
  let ?xs = "[firstContentfulPaintScore ?c, largestContentfulPaintScore ?c, loadTime ?c,
              resourceEfficiency ?c]"
  let ?nz = "filter (\<lambda>x. x \<noteq> 0) ?xs"
  have "resourceEfficiency ?c \<noteq> 0"
    using resource_range[of m] by linarith
  then have "resourceEfficiency ?c \<in> set ?nz"
    by simp
  then have ne: "?nz \<noteq> []"
    by (metis empty_iff empty_set)
  have "\<forall>x \<in> set ?xs. x = 0 \<or> 25 \<le> x \<and> x \<le> 100"
    using component_range[of m] resource_range[of m] by simp
  then have "\<forall>x \<in> set ?nz. 25 \<le> x \<and> x \<le> 100"
    by (rule filter_nonzero_range)
  from mean_bounds[OF ne this] ne show ?thesis
    by (simp only: overall_closed meanOfNonZero_def Let_def if_False)
qed

lemma scoreFCP_unobserved:
  "firstContentfulPaint (webVitals m) = None \<or> firstContentfulPaint (webVitals m) = Some 0 \<Longrightarrow>
   scoreFCP m s = s"
  by (auto simp: scoreFCP_def)

lemma scoreLCP_unobserved:
  "largestContentfulPaint (webVitals m) = None \<or> largestContentfulPaint (webVitals m) = Some 0 \<Longrightarrow>
   scoreLCP m s = s"
  by (auto simp: scoreLCP_def)

lemma scoreLoadTime_unobserved:
  "loadComplete (webVitals m) = None \<or> loadComplete (webVitals m) = Some 0 \<Longrightarrow>
   scoreLoadTime m s = s"
  by (auto simp: scoreLoadTime_def)

lemma stage_cong:
  "firstContentfulPaint (webVitals m) = firstContentfulPaint (webVitals m') \<Longrightarrow>
     scoreFCP m s = scoreFCP m' s"
  "largestContentfulPaint (webVitals m) = largestContentfulPaint (webVitals m') \<Longrightarrow>
     scoreLCP m s = scoreLCP m' s"
  "loadComplete (webVitals m) = loadComplete (webVitals m') \<Longrightarrow>
     scoreLoadTime m s = scoreLoadTime m' s"
  "totalResources (resources m) = totalResources (resources m') \<Longrightarrow>
     scoreResources m s = scoreResources m' s"
  by (simp_all add: scoreFCP_def scoreLCP_def scoreLoadTime_def scoreResources_def)

lemma fcp_zero_as_absent:
  assumes "firstContentfulPaint (webVitals m) = Some 0"
  shows "calculatePerformanceScores m =
         calculatePerformanceScores (m\<lparr>webVitals := (webVitals m)\<lparr>firstContentfulPaint := None\<rparr>\<rparr>)"
proof -
  let ?m = "m\<lparr>webVitals := (webVitals m)\<lparr>firstContentfulPaint := None\<rparr>\<rparr>"
  have a: "scoreFCP m s = scoreFCP ?m s" for s
    using assms by (simp add: scoreFCP_unobserved)
  have b: "scoreLCP m s = scoreLCP ?m s" for s by (rule stage_cong) simp
  have c: "scoreLoadTime m s = scoreLoadTime ?m s" for s by (rule stage_cong) simp
  have d: "scoreResources m s = scoreResources ?m s" for s by (rule stage_cong) simp
  show ?thesis
    unfolding calculatePerformanceScores_def by (simp only: a b c d)
qed

lemma lcp_zero_as_absent:
  assumes "largestContentfulPaint (webVitals m) = Some 0"
  shows "calculatePerformanceScores m =
         calculatePerformanceScores (m\<lparr>webVitals := (webVitals m)\<lparr>largestContentfulPaint := None\<rparr>\<rparr>)"
proof -
  let ?m = "m\<lparr>webVitals := (webVitals m)\<lparr>largestContentfulPaint := None\<rparr>\<rparr>"
  have a: "scoreFCP m s = scoreFCP ?m s" for s by (rule stage_cong) simp
  have b: "scoreLCP m s = scoreLCP ?m s" for s
    using assms by (simp add: scoreLCP_unobserved)
  have c: "scoreLoadTime m s = scoreLoadTime ?m s" for s by (rule stage_cong) simp
  have d: "scoreResources m s = scoreResources ?m s" for s by (rule stage_cong) simp
  show ?thesis
    unfolding calculatePerformanceScores_def by (simp only: a b c d)
qed

lemma load_zero_as_absent:
  assumes "loadComplete (webVitals m) = Some 0"
  shows "calculatePerformanceScores m =
         calculatePerformanceScores (m\<lparr>webVitals := (webVitals m)\<lparr>loadComplete := None\<rparr>\<rparr>)"
proof -
  let ?m = "m\<lparr>webVitals := (webVitals m)\<lparr>loadComplete := None\<rparr>\<rparr>"
  have a: "scoreFCP m s = scoreFCP ?m s" for s by (rule stage_cong) simp
  have b: "scoreLCP m s = scoreLCP ?m s" for s by (rule stage_cong) simp
  have c: "scoreLoadTime m s = scoreLoadTime ?m s" for s
    using assms by (simp add: scoreLoadTime_unobserved)
  have d: "scoreResources m s = scoreResources ?m s" for s by (rule stage_cong) simp
  show ?thesis
    unfolding calculatePerformanceScores_def by (simp only: a b c d)
qed

lemma meanOfNonZero_drop_zero:
  "meanOfNonZero (0 # xs) = meanOfNonZero xs"
  "meanOfNonZero (a # 0 # xs) = meanOfNonZero (a # xs)"
  "meanOfNonZero (a # b # 0 # xs) = meanOfNonZero (a # b # xs)"
  by (simp_all add: meanOfNonZero_def)

section \<open>Properties of the Telemetry Collector and the Network Condition Controller\<close>


text \<open>When the analysis returns, the second command has reset the emulation.\<close>

lemma throttling_restored_on_success:
  "analyzePagePerformance pl u = Inr a \<Longrightarrow>
   testWithThrottling pl u conditions session =
     (Inr (a\<lparr>networkConditions := Some conditions\<rparr>), unconstrained)"
  by (simp add: testWithThrottling_def emulateNetworkConditions_def)

text \<open>When the analysis throws, the session keeps the conditions of the first command.\<close>

lemma throttling_kept_on_error:
  "analyzePagePerformance pl u = Inl err \<Longrightarrow>
   testWithThrottling pl u conditions session =
     (Inl err,
      \<lparr>downloadThroughput = downloadThroughput conditions,
       uploadThroughput = uploadThroughput conditions,
       latency = latency conditions, offline = False\<rparr>)"
  by (simp add: testWithThrottling_def emulateNetworkConditions_def)

section \<open>Properties of the Load Orchestrator\<close>

lemma runBatch_acc:
  "runBatch env u opts b acc =
     (fst acc @ fst (runBatch env u opts b ([], [])),
      snd acc @ snd (runBatch env u opts b ([], [])))"
  by (simp add: runBatch_def Let_def)

lemma fold_runBatch:
  "fold (runBatch env u opts) bs acc =
     (fst acc @ concat (map (\<lambda>b. fst (runBatch env u opts b ([], []))) bs),
      snd acc @ concat (map (\<lambda>b. snd (runBatch env u opts b ([], []))) bs))"
proof (induction bs arbitrary: acc)
  case Nil
  show ?case by simp
next
  case (Cons b bs)
  show ?case
    by (simp only: fold_simps Cons.IH) (simp add: runBatch_acc[of env u opts b acc])
qed

lemma batch_results_not_null:
  "None \<notin> set (fst (runBatch env u opts b ([], [])))"
  by (simp add: runBatch_def Let_def)

lemma results_not_null:
  "None \<notin> set (fst (fold (runBatch env u opts) bs ([], [])))"
  by (simp add: fold_runBatch batch_results_not_null)

lemma length_map_filter_not_null:
  "None \<notin> set xs \<Longrightarrow> length (List.map_filter (\<lambda>r. r) xs) = length xs"
proof (induction xs)
  case Nil
  show ?case by simp
next
  case (Cons x xs)
  then obtain y where "x = Some y" by (cases x) auto
  with Cons show ?case by simp
qed

text \<open>
  \<open>loadTest\<close> pushes only the results that are not \<open>null\<close>, so the length of
  \<open>results\<close>, reported as \<open>totalRequests\<close>, is the number of successful slots.
\<close>

lemma total_equals_successful:
  "totalRequests (summary (loadTest env u opts)) =
   successfulRequests (summary (loadTest env u opts))"
proof -
  let ?rs = "fst (fold (runBatch env u opts) [0..<iterations opts] ([], []))"
  have len: "length (List.map_filter (\<lambda>r. r) ?rs) = length ?rs"
    by (rule length_map_filter_not_null) (rule results_not_null)
  then have "List.map_filter (\<lambda>r. r) ?rs = [] \<Longrightarrow> ?rs = []"
    by (metis length_0_conv)
  with len show ?thesis
    by (auto simp: loadTest_def analyzeLoadTestResults_def Let_def)
qed

lemma length_concat_const:
  "\<forall>x \<in> set xs. length (h x) = k \<Longrightarrow> length (concat (map h xs)) = length xs * k"
  by (induction xs) auto

lemma batch_all_failed:
  assumes "\<forall>i<concurrent opts. isl (analyzePagePerformance (pageLoads env b i) u)"
  shows "fst (runBatch env u opts b ([], [])) = []"
    and "length (snd (runBatch env u opts b ([], []))) = concurrent opts"
proof -
  let ?out = "\<lambda>i. analyzePagePerformance (pageLoads env b i) u"
  have "\<forall>i \<in> set [0..<concurrent opts].
          (case ?out i of Inl _ \<Rightarrow> None | Inr a \<Rightarrow> Some a) = None"
    using assms by (auto split: sum.splits)
  then have "filter (\<lambda>r. r \<noteq> None)
               (map (\<lambda>i. case ?out i of Inl _ \<Rightarrow> None | Inr a \<Rightarrow> Some a)
                  [0..<concurrent opts]) = []"
    by (simp add: filter_empty_conv)
  then show "fst (runBatch env u opts b ([], [])) = []"
    by (simp add: runBatch_def Let_def)
  let ?g = "\<lambda>i. case ?out i of Inl msg \<Rightarrow> [slotError b i msg] | Inr _ \<Rightarrow> []"
  have "\<forall>i \<in> set (sort_key (settleTime env b) [0..<concurrent opts]). length (?g i) = 1"
    using assms by (auto split: sum.splits)
  from length_concat_const[OF this]
  show "length (snd (runBatch env u opts b ([], []))) = concurrent opts"
    by (simp add: runBatch_def Let_def)
qed

lemma run_all_failed:
  assumes "\<forall>b<iterations opts. \<forall>i<concurrent opts.
             isl (analyzePagePerformance (pageLoads env b i) u)"
  shows "fst (fold (runBatch env u opts) [0..<iterations opts] ([], [])) = []"
    and "length (snd (fold (runBatch env u opts) [0..<iterations opts] ([], []))) =
           concurrent opts * iterations opts"
proof -
  have a: "\<forall>b \<in> set [0..<iterations opts]. fst (runBatch env u opts b ([], [])) = []"
    using assms batch_all_failed(1) by simp
  have b: "\<forall>b \<in> set [0..<iterations opts].
             length (snd (runBatch env u opts b ([], []))) = concurrent opts"
    using assms batch_all_failed(2) by simp
  from a show "fst (fold (runBatch env u opts) [0..<iterations opts] ([], [])) = []"
    by (simp add: fold_runBatch)
  from length_concat_const[OF b]
  show "length (snd (fold (runBatch env u opts) [0..<iterations opts] ([], []))) =
           concurrent opts * iterations opts"
    by (simp add: fold_runBatch mult.commute)
qed

lemma all_failed_result:
  assumes "\<forall>b<iterations opts. \<forall>i<concurrent opts.
             isl (analyzePagePerformance (pageLoads env b i) u)"
  shows "summary (loadTest env u opts) =
           \<lparr>totalRequests = 0, successfulRequests = 0,
            failedRequests = concurrent opts * iterations opts, successRate = Some 0,
            averageResponseTime = Some 0, minResponseTime = Some 0,
            maxResponseTime = Some 0\<rparr>"
    and "loadRecommendations (loadTest env u opts) = [msgAllFailed]"
    and "length (errors (loadTest env u opts)) = concurrent opts * iterations opts"
  using run_all_failed[OF assms]
  by (simp_all add: loadTest_def analyzeLoadTestResults_def Let_def)

lemma slot_error_recorded:
  assumes "b < iterations opts" "i < concurrent opts"
    and "analyzePagePerformance (pageLoads env b i) u = Inl msg"
  shows "slotError b i msg \<in> set (errors (loadTest env u opts))"
proof -
  have e: "errors (loadTest env u opts) =
           snd (fold (runBatch env u opts) [0..<iterations opts] ([], []))"
    by (simp add: loadTest_def analyzeLoadTestResults_def Let_def)
  have "slotError b i msg \<in> set (snd (runBatch env u opts b ([], [])))"
    using assms(2,3) by (force simp: runBatch_def Let_def)
  then show ?thesis
    using assms(1) by (simp only: e fold_runBatch) auto
qed

lemma no_division_by_zero:
  "successRate (summary (loadTest env u opts)) \<noteq> None \<and>
   averageResponseTime (summary (loadTest env u opts)) \<noteq> None \<and>
   minResponseTime (summary (loadTest env u opts)) \<noteq> None \<and>
   maxResponseTime (summary (loadTest env u opts)) \<noteq> None"
proof -
  let ?rs = "fst (fold (runBatch env u opts) [0..<iterations opts] ([], []))"
  let ?vs = "List.map_filter (\<lambda>r. r) ?rs"
  have len: "length ?vs = length ?rs"
    by (rule length_map_filter_not_null) (rule results_not_null)
  show ?thesis
  proof (cases "?vs = []")
    case True
    then show ?thesis
      by (simp add: loadTest_def analyzeLoadTestResults_def Let_def)
  next
    case False
    then obtain v vs' where v: "?vs = v # vs'" by (cases ?vs) auto
    with len have "length ?rs = Suc (length vs')" by simp
    with v show ?thesis
      by (simp add: loadTest_def analyzeLoadTestResults_def Let_def jsDivide_def)
  qed
qed

text \<open>
  Only the results that are not \<open>null\<close> reach \<open>analyzeLoadTestResults\<close>, so whenever
  one slot succeeded the rate it computes is 100.
\<close>

lemma success_rate_is_100:
  assumes "successfulRequests (summary (loadTest env u opts)) \<noteq> 0"
  shows "successRate (summary (loadTest env u opts)) = Some 100"
proof -
  let ?rs = "fst (fold (runBatch env u opts) [0..<iterations opts] ([], []))"
  let ?vs = "List.map_filter (\<lambda>r. r) ?rs"
  have len: "length ?vs = length ?rs"
    by (rule length_map_filter_not_null) (rule results_not_null)
  have "?vs \<noteq> []"
    using assms by (auto simp: loadTest_def analyzeLoadTestResults_def Let_def)
  then obtain v vs' where v: "?vs = v # vs'" by (cases ?vs) auto
  with len have "length ?rs = Suc (length vs')" by simp
  with v show ?thesis
    by (simp add: loadTest_def analyzeLoadTestResults_def Let_def jsDivide_def)
qed

text \<open>
  The response-time statistics are the mean, minimum and maximum of the load-complete
  times of the successful results, a missing time counting as 0.
\<close>

lemma response_time_statistics:
  assumes "ts = map loadCompleteOrZero (List.map_filter (\<lambda>r. r) results)" and "ts \<noteq> []"
  shows "averageResponseTime (summary (analyzeLoadTestResults results errs)) =
           Some (sum_list ts / real (length ts))"
    and "minResponseTime (summary (analyzeLoadTestResults results errs)) = Some (Min (set ts))"
    and "maxResponseTime (summary (analyzeLoadTestResults results errs)) = Some (Max (set ts))"
proof -
  from assms obtain t ts' where t: "ts = t # ts'" by (cases ts) auto
  have ne: "List.map_filter (\<lambda>r. r) results \<noteq> []" using assms by auto
  show "averageResponseTime (summary (analyzeLoadTestResults results errs)) =
           Some (sum_list ts / real (length ts))"
    using ne assms(2)
    by (simp add: analyzeLoadTestResults_def Let_def assms(1)[symmetric] jsDivide_def
          foldl_plus_sum_list)
  have lo: "mathMin ts = Some (Min (set ts))"
    unfolding t mathMin.simps by (simp only: Min.set_eq_fold)
  have hi: "mathMax ts = Some (Max (set ts))"
    unfolding t mathMax.simps by (simp only: Max.set_eq_fold)
  show "minResponseTime (summary (analyzeLoadTestResults results errs)) = Some (Min (set ts))"
    using ne by (simp add: analyzeLoadTestResults_def Let_def assms(1)[symmetric] lo)
  show "maxResponseTime (summary (analyzeLoadTestResults results errs)) = Some (Max (set ts))"
    using ne by (simp add: analyzeLoadTestResults_def Let_def assms(1)[symmetric] hi)
qed

lemma refused_throws:
  "analyzePagePerformance refusedLoad u = Inl ''net::ERR_CONNECTION_REFUSED''"
  by (simp add: analyzePagePerformance_def refusedLoad_def)

lemma quick_returns:
  "\<exists>a. analyzePagePerformance quickLoad u = Inr a \<and>
       loadComplete (webVitals (metrics a)) = Some 1000"
  by (simp add: analyzePagePerformance_def quickLoad_def evaluateMetrics_def fallbackTimeout_def
        observerCallback_def observeEntry_def navigationEntry_def emptyVitals_def Let_def)

lemma first_batch_failing_run:
  "\<exists>a. fold (runBatch firstBatchFailing u oneByTwo) [0..<iterations oneByTwo] ([], []) =
        ([Some a], [slotError 0 0 ''net::ERR_CONNECTION_REFUSED'']) \<and>
       loadComplete (webVitals (metrics a)) = Some 1000"
proof -
  from quick_returns[of u] obtain a where
    a: "analyzePagePerformance quickLoad u = Inr a"
       "loadComplete (webVitals (metrics a)) = Some 1000" by blast
  have up: "[0..<iterations oneByTwo] = [0, 1]" "[0..<concurrent oneByTwo] = [0]"
    by (simp_all add: oneByTwo_def upt_rec)
  have "fold (runBatch firstBatchFailing u oneByTwo) [0..<iterations oneByTwo] ([], []) =
        ([Some a], [slotError 0 0 ''net::ERR_CONNECTION_REFUSED''])"
    by (simp add: up runBatch_def Let_def firstBatchFailing_def refused_throws a(1))
  with a(2) show ?thesis by blast
qed

lemma all_failing_throws:
  "\<forall>b<iterations opts. \<forall>i<concurrent opts.
     isl (analyzePagePerformance (pageLoads allFailing b i) u)"
  by (simp add: allFailing_def refused_throws)

section \<open>Claims about the Score Calculator\<close>

text \<open>
  Against C4 as stated: the metrics the fallback timer resolves with hold no web vital at
  all and a resource count of 0, yet the overall score is 100, not 0, because the
  resource count is always scored.
\<close>

theorem overall_unobserved_counterexample:
  "webVitals fallbackMetrics = emptyVitals \<and>
   overall (calculatePerformanceScores fallbackMetrics) = 100 \<and>
   overall (calculatePerformanceScores fallbackMetrics) \<noteq> 0"
  by (simp add: overall_closed fcp_closed lcp_closed load_closed res_closed meanOfNonZero_def
        fallbackMetrics_def emptyVitals_def)

text \<open>
  C4 (amended): for every metrics input the overall score is the arithmetic mean of
  exactly the non-zero component scores; a timing component whose source metric is
  absent stays 0 and so is left out of the mean; the resource-efficiency component is
  always at least 25 and always takes part, hence the overall score is never 0 and lies
  between 25 and 100.
\<close>

theorem overall_mean_of_nonzero_scores:
  "overall (calculatePerformanceScores m) =
     meanOfNonZero
       [firstContentfulPaintScore (calculatePerformanceScores m),
        largestContentfulPaintScore (calculatePerformanceScores m),
        loadTime (calculatePerformanceScores m),
        resourceEfficiency (calculatePerformanceScores m)] \<and>
   25 \<le> resourceEfficiency (calculatePerformanceScores m) \<and>
   25 \<le> overall (calculatePerformanceScores m) \<and>
   overall (calculatePerformanceScores m) \<le> 100 \<and>
   (firstContentfulPaint (webVitals m) = None \<longrightarrow>
      firstContentfulPaintScore (calculatePerformanceScores m) = 0) \<and>
   (largestContentfulPaint (webVitals m) = None \<longrightarrow>
      largestContentfulPaintScore (calculatePerformanceScores m) = 0) \<and>
   (loadComplete (webVitals m) = None \<longrightarrow> loadTime (calculatePerformanceScores m) = 0)"
  using overall_closed[of m] overall_bounds[of m] resource_range[of m]
  by (simp add: fcp_closed lcp_closed load_closed)

text \<open>
  At an input where only the load-complete time (1500 ms) was observed and the page has
  200 resources, the mean is taken over the two scores 100 and 25.
\<close>

theorem overall_mean_of_nonzero_scores_witness:
  "firstContentfulPaint (webVitals onlyLoadObserved) = None \<and>
   largestContentfulPaint (webVitals onlyLoadObserved) = None \<and>
   firstContentfulPaintScore (calculatePerformanceScores onlyLoadObserved) = 0 \<and>
   largestContentfulPaintScore (calculatePerformanceScores onlyLoadObserved) = 0 \<and>
   overall (calculatePerformanceScores onlyLoadObserved) = 125 / 2"
  using overall_mean_of_nonzero_scores[of onlyLoadObserved]
  by (simp add: load_closed res_closed meanOfNonZero_def onlyLoadObserved_def emptyVitals_def
        exampleResources_def)

text \<open>
  Against C5 as stated: two inputs that differ only in the first-contentful-paint time,
  0 ms and 1000 ms; the smaller time has the smaller score (0 against 100).
\<close>

theorem fcp_monotone_counterexample:
  "(0::real) \<le> 1000 \<and>
   firstContentfulPaintScore (calculatePerformanceScores (withFCP 0 exampleMetrics)) <
   firstContentfulPaintScore (calculatePerformanceScores (withFCP 1000 exampleMetrics))"
  by (simp add: fcp_closed withFCP_def)

text \<open>
  C5 (amended): for two inputs that are identical except for the first-contentful-paint
  time, the input with the smaller time has a first-contentful-paint score greater than
  or equal to the other's, provided the smaller time is not exactly 0.
\<close>

theorem fcp_score_monotone_nonzero:
  "a \<le> b \<Longrightarrow> a \<noteq> 0 \<Longrightarrow>
   firstContentfulPaintScore (calculatePerformanceScores (withFCP b m)) \<le>
   firstContentfulPaintScore (calculatePerformanceScores (withFCP a m))"
  by (simp add: fcp_closed withFCP_def)

theorem fcp_score_monotone_nonzero_witness:
  "(1000::real) \<le> 2000 \<and> (1000::real) \<noteq> 0 \<and>
   firstContentfulPaintScore (calculatePerformanceScores (withFCP 2000 exampleMetrics)) \<le>
   firstContentfulPaintScore (calculatePerformanceScores (withFCP 1000 exampleMetrics))"
  using fcp_score_monotone_nonzero[of 1000 2000 exampleMetrics] by simp

text \<open>
  Against C6 as stated: a load-complete time of 0 ms is at most 2000 ms, and its score is
  0, not 100.
\<close>

theorem threshold_table_counterexample:
  "loadComplete (webVitals zeroTimings) = Some 0 \<and> (0::real) \<le> 2000 \<and>
   loadTime (calculatePerformanceScores zeroTimings) = 0 \<and>
   loadTime (calculatePerformanceScores zeroTimings) \<noteq> 100"
  by (simp add: load_closed zeroTimings_def)

text \<open>
  C6 (amended): for an observed timing value other than exactly 0 the calculator
  reproduces the threshold table (first contentful paint: at most 1800, 3000, 4200 ms
  give 100, 75, 50, else 25; largest contentful paint: at most 2500, 4000 ms give 100,
  75, else 25; load complete: at most 2000, 4000, 6000 ms give 100, 75, 50, else 25);
  for every resource count at most 50, 100, 150 give 100, 75, 50, else 25, and in
  particular 50 resources score 100 and 51 score 75.
\<close>

theorem threshold_table_nonzero:
  "(firstContentfulPaint (webVitals m) = Some f \<longrightarrow> f \<noteq> 0 \<longrightarrow>
      firstContentfulPaintScore (calculatePerformanceScores m) =
        (if f \<le> 1800 then 100 else if f \<le> 3000 then 75 else if f \<le> 4200 then 50 else 25)) \<and>
   (largestContentfulPaint (webVitals m) = Some l \<longrightarrow> l \<noteq> 0 \<longrightarrow>
      largestContentfulPaintScore (calculatePerformanceScores m) =
        (if l \<le> 2500 then 100 else if l \<le> 4000 then 75 else 25)) \<and>
   (loadComplete (webVitals m) = Some t \<longrightarrow> t \<noteq> 0 \<longrightarrow>
      loadTime (calculatePerformanceScores m) =
        (if t \<le> 2000 then 100 else if t \<le> 4000 then 75 else if t \<le> 6000 then 50 else 25)) \<and>
   resourceEfficiency (calculatePerformanceScores m) =
     (if totalResources (resources m) \<le> 50 then 100
      else if totalResources (resources m) \<le> 100 then 75
      else if totalResources (resources m) \<le> 150 then 50 else 25) \<and>
   resourceEfficiency
     (calculatePerformanceScores (m\<lparr>resources := (resources m)\<lparr>totalResources := 50\<rparr>\<rparr>)) = 100 \<and>
   resourceEfficiency
     (calculatePerformanceScores (m\<lparr>resources := (resources m)\<lparr>totalResources := 51\<rparr>\<rparr>)) = 75"
  by (simp add: fcp_closed lcp_closed load_closed res_closed)

theorem threshold_table_nonzero_witness:
  "firstContentfulPaint (webVitals exampleMetrics) = Some 1000 \<and> (1000::real) \<noteq> 0 \<and>
   largestContentfulPaint (webVitals exampleMetrics) = Some 3000 \<and> (3000::real) \<noteq> 0 \<and>
   loadComplete (webVitals exampleMetrics) = Some 5000 \<and> (5000::real) \<noteq> 0 \<and>
   firstContentfulPaintScore (calculatePerformanceScores exampleMetrics) = 100 \<and>
   largestContentfulPaintScore (calculatePerformanceScores exampleMetrics) = 75 \<and>
   loadTime (calculatePerformanceScores exampleMetrics) = 50 \<and>
   resourceEfficiency (calculatePerformanceScores exampleMetrics) = 75"
  using threshold_table_nonzero[of exampleMetrics 1000 3000 5000]
  by (simp add: exampleMetrics_def exampleResources_def)

text \<open>
  C9: when an observed timing value is exactly 0 ms, the calculator treats the metric as
  unobserved: its component score stays 0 (not 100), it is left out of the overall mean,
  and all scores are those of the same input with the metric absent. This holds for the
  first-contentful-paint, largest-contentful-paint and load-complete values alike.
\<close>

theorem zero_timing_treated_as_unobserved:
  "(firstContentfulPaint (webVitals m) = Some 0 \<longrightarrow>
      firstContentfulPaintScore (calculatePerformanceScores m) = 0 \<and>
      overall (calculatePerformanceScores m) =
        meanOfNonZero
          [largestContentfulPaintScore (calculatePerformanceScores m),
           loadTime (calculatePerformanceScores m),
           resourceEfficiency (calculatePerformanceScores m)] \<and>
      calculatePerformanceScores m =
        calculatePerformanceScores
          (m\<lparr>webVitals := (webVitals m)\<lparr>firstContentfulPaint := None\<rparr>\<rparr>)) \<and>
   (largestContentfulPaint (webVitals m) = Some 0 \<longrightarrow>
      largestContentfulPaintScore (calculatePerformanceScores m) = 0 \<and>
      overall (calculatePerformanceScores m) =
        meanOfNonZero
          [firstContentfulPaintScore (calculatePerformanceScores m),
           loadTime (calculatePerformanceScores m),
           resourceEfficiency (calculatePerformanceScores m)] \<and>
      calculatePerformanceScores m =
        calculatePerformanceScores
          (m\<lparr>webVitals := (webVitals m)\<lparr>largestContentfulPaint := None\<rparr>\<rparr>)) \<and>
   (loadComplete (webVitals m) = Some 0 \<longrightarrow>
      loadTime (calculatePerformanceScores m) = 0 \<and>
      overall (calculatePerformanceScores m) =
        meanOfNonZero
          [firstContentfulPaintScore (calculatePerformanceScores m),
           largestContentfulPaintScore (calculatePerformanceScores m),
           resourceEfficiency (calculatePerformanceScores m)] \<and>
      calculatePerformanceScores m =
        calculatePerformanceScores
          (m\<lparr>webVitals := (webVitals m)\<lparr>loadComplete := None\<rparr>\<rparr>))"
proof (intro conjI impI)
  assume h: "firstContentfulPaint (webVitals m) = Some 0"
  then show z: "firstContentfulPaintScore (calculatePerformanceScores m) = 0"
    by (simp add: fcp_closed)
  show "overall (calculatePerformanceScores m) =
        meanOfNonZero
          [largestContentfulPaintScore (calculatePerformanceScores m),
           loadTime (calculatePerformanceScores m),
           resourceEfficiency (calculatePerformanceScores m)]"
    by (simp only: overall_closed[of m] z meanOfNonZero_drop_zero)
  from h show "calculatePerformanceScores m =
        calculatePerformanceScores
          (m\<lparr>webVitals := (webVitals m)\<lparr>firstContentfulPaint := None\<rparr>\<rparr>)"
    by (rule fcp_zero_as_absent)
next
  assume h: "largestContentfulPaint (webVitals m) = Some 0"
  then show z: "largestContentfulPaintScore (calculatePerformanceScores m) = 0"
    by (simp add: lcp_closed)
  show "overall (calculatePerformanceScores m) =
        meanOfNonZero
          [firstContentfulPaintScore (calculatePerformanceScores m),
           loadTime (calculatePerformanceScores m),
           resourceEfficiency (calculatePerformanceScores m)]"
    by (simp only: overall_closed[of m] z meanOfNonZero_drop_zero)
  from h show "calculatePerformanceScores m =
        calculatePerformanceScores
          (m\<lparr>webVitals := (webVitals m)\<lparr>largestContentfulPaint := None\<rparr>\<rparr>)"
    by (rule lcp_zero_as_absent)
next
  assume h: "loadComplete (webVitals m) = Some 0"
  then show z: "loadTime (calculatePerformanceScores m) = 0"
    by (simp add: load_closed)
  show "overall (calculatePerformanceScores m) =
        meanOfNonZero
          [firstContentfulPaintScore (calculatePerformanceScores m),
           largestContentfulPaintScore (calculatePerformanceScores m),
           resourceEfficiency (calculatePerformanceScores m)]"
    by (simp only: overall_closed[of m] z meanOfNonZero_drop_zero)
  from h show "calculatePerformanceScores m =
        calculatePerformanceScores
          (m\<lparr>webVitals := (webVitals m)\<lparr>loadComplete := None\<rparr>\<rparr>)"
    by (rule load_zero_as_absent)
qed

text \<open>
  With all three timings at 0 ms and 120 resources only the resource score (50) is left.
\<close>

theorem zero_timing_treated_as_unobserved_witness:
  "firstContentfulPaint (webVitals zeroTimings) = Some 0 \<and>
   largestContentfulPaint (webVitals zeroTimings) = Some 0 \<and>
   loadComplete (webVitals zeroTimings) = Some 0 \<and>
   firstContentfulPaintScore (calculatePerformanceScores zeroTimings) = 0 \<and>
   largestContentfulPaintScore (calculatePerformanceScores zeroTimings) = 0 \<and>
   loadTime (calculatePerformanceScores zeroTimings) = 0 \<and>
   overall (calculatePerformanceScores zeroTimings) = 50"
proof -
  have v: "firstContentfulPaint (webVitals zeroTimings) = Some 0"
    "largestContentfulPaint (webVitals zeroTimings) = Some 0"
    "loadComplete (webVitals zeroTimings) = Some 0"
    by (simp_all add: zeroTimings_def)
  have r: "resourceEfficiency (calculatePerformanceScores zeroTimings) = 50"
    by (simp add: res_closed zeroTimings_def exampleResources_def)
  note T = zero_timing_treated_as_unobserved[of zeroTimings]
  have z: "firstContentfulPaintScore (calculatePerformanceScores zeroTimings) = 0"
    "largestContentfulPaintScore (calculatePerformanceScores zeroTimings) = 0"
    "loadTime (calculatePerformanceScores zeroTimings) = 0"
    using T v by blast+
  have o: "overall (calculatePerformanceScores zeroTimings) =
        meanOfNonZero
          [largestContentfulPaintScore (calculatePerformanceScores zeroTimings),
           loadTime (calculatePerformanceScores zeroTimings),
           resourceEfficiency (calculatePerformanceScores zeroTimings)]"
    using T v(1) by blast
  have "overall (calculatePerformanceScores zeroTimings) = 50"
    by (simp add: o z r meanOfNonZero_def)
  with v z show ?thesis by simp
qed

section \<open>Claims about the Recommendation Generator\<close>

text \<open>
  C10: when the first-contentful-paint (respectively largest-contentful-paint) value is
  absent, its score is 0, which passes the gate \<open>score < 75\<close>, so the generator still
  emits the corresponding recommendation although the metric was never measured.
\<close>

theorem unobserved_paint_still_recommended:
  "(firstContentfulPaint (webVitals m) = None \<longrightarrow>
      firstContentfulPaintScore (calculatePerformanceScores m) = 0 \<and>
      msgFCP \<in> set (generateRecommendations m (calculatePerformanceScores m))) \<and>
   (largestContentfulPaint (webVitals m) = None \<longrightarrow>
      largestContentfulPaintScore (calculatePerformanceScores m) = 0 \<and>
      msgLCP \<in> set (generateRecommendations m (calculatePerformanceScores m)))"
  by (simp add: generateRecommendations_def fcp_closed lcp_closed)

theorem unobserved_paint_still_recommended_witness:
  "firstContentfulPaint (webVitals onlyLoadObserved) = None \<and>
   largestContentfulPaint (webVitals onlyLoadObserved) = None \<and>
   msgFCP \<in> set (generateRecommendations onlyLoadObserved
                    (calculatePerformanceScores onlyLoadObserved)) \<and>
   msgLCP \<in> set (generateRecommendations onlyLoadObserved
                    (calculatePerformanceScores onlyLoadObserved))"
  using unobserved_paint_still_recommended[of onlyLoadObserved]
  by (simp add: onlyLoadObserved_def emptyVitals_def)

section \<open>Claims about the Telemetry Collector\<close>




section \<open>Claims about the Network Condition Controller\<close>

text \<open>
  C1 asks that the network conditions be restored on every way out of
  \<open>testWithThrottling\<close>. The source resets them only after the analysis has returned:
  when the navigation is refused, the call ends with the error and the session still
  has the throttled conditions (64000 bytes/s, 400 ms), not the unconstrained ones.
\<close>

theorem throttling_not_restored_on_error:
  "testWithThrottling refusedLoad ''https://playwright.dev'' slowConditions unconstrained =
     (Inl ''net::ERR_CONNECTION_REFUSED'',
      \<lparr>downloadThroughput = 64000, uploadThroughput = 64000, latency = 400, offline = False\<rparr>) \<and>
   snd (testWithThrottling refusedLoad ''https://playwright.dev'' slowConditions unconstrained)
     \<noteq> unconstrained"
  by (simp add: testWithThrottling_def emulateNetworkConditions_def analyzePagePerformance_def
        refusedLoad_def slowConditions_def unconstrained_def)

section \<open>Claims about the Load Orchestrator\<close>

text \<open>
  C2 asks for \<open>totalRequests = concurrent * iterations\<close> whatever the number of
  failures. With one slot per batch and two batches, the slot of the first batch
  failing, the code reports 1 total request (and 1 failed request), not 2.
\<close>

theorem total_requests_counts_successes_only:
  "concurrent oneByTwo * iterations oneByTwo = 2 \<and>
   totalRequests (summary (loadTest firstBatchFailing ''https://playwright.dev'' oneByTwo)) = 1 \<and>
   failedRequests (summary (loadTest firstBatchFailing ''https://playwright.dev'' oneByTwo)) = 1"
proof -
  from first_batch_failing_run[of "''https://playwright.dev''"] obtain a where
    "fold (runBatch firstBatchFailing ''https://playwright.dev'' oneByTwo)
       [0..<iterations oneByTwo] ([], []) =
     ([Some a], [slotError 0 0 ''net::ERR_CONNECTION_REFUSED''])" by blast
  then show ?thesis
    by (simp add: loadTest_def analyzeLoadTestResults_def Let_def
          oneByTwo_def)
qed

text \<open>
  C3 asks for a success rate over the requests issued. In the same run (one success out
  of \<open>1 * 2\<close> requests) the code reports 100, not 50; the average response time is
  that of the one successful result.
\<close>

theorem success_rate_over_successes_only:
  "concurrent oneByTwo * iterations oneByTwo = 2 \<and>
   successfulRequests (summary (loadTest firstBatchFailing ''https://playwright.dev'' oneByTwo)) = 1 \<and>
   successRate (summary (loadTest firstBatchFailing ''https://playwright.dev'' oneByTwo)) = Some 100 \<and>
   averageResponseTime (summary (loadTest firstBatchFailing ''https://playwright.dev'' oneByTwo)) =
     Some 1000"
proof -
  from first_batch_failing_run[of "''https://playwright.dev''"] obtain a where
    "fold (runBatch firstBatchFailing ''https://playwright.dev'' oneByTwo)
       [0..<iterations oneByTwo] ([], []) =
     ([Some a], [slotError 0 0 ''net::ERR_CONNECTION_REFUSED''])"
    "loadComplete (webVitals (metrics a)) = Some 1000" by blast
  then show ?thesis
    by (simp add: loadTest_def analyzeLoadTestResults_def Let_def
          oneByTwo_def jsDivide_def loadCompleteOrZero_def)
qed

text \<open>
  Against C7 as stated: when every slot of a run of two batches of two throws, the
  numeric summary field \<open>failedRequests\<close> is 4, not 0.
\<close>

theorem failed_requests_counterexample:
  "isl (analyzePagePerformance refusedLoad ''https://playwright.dev'') \<and>
   successfulRequests (summary (loadTest allFailing ''https://playwright.dev'' twoByTwo)) = 0 \<and>
   failedRequests (summary (loadTest allFailing ''https://playwright.dev'' twoByTwo)) = 4 \<and>
   failedRequests (summary (loadTest allFailing ''https://playwright.dev'' twoByTwo)) \<noteq> 0"
  using all_failed_result(1)[where opts = twoByTwo and env = allFailing
      and u = "''https://playwright.dev''", OF all_failing_throws]
  by (simp add: refused_throws twoByTwo_def)

text \<open>
  C7 (amended): \<open>loadTest\<close> always returns a result; for every slot that throws, its
  message prefixed with batch and slot index is in the errors list; no division yields
  a non-finite number; and if every slot of every batch throws, the success rate, the
  number of successful requests and the average, minimum and maximum response times are
  0, \<open>failedRequests\<close> is the number of slots \<open>concurrent * iterations\<close>, one error
  is listed per slot, and the recommendations are the all-requests-failed message alone.
\<close>

theorem loadTest_records_slot_failures:
  "(\<forall>b<iterations opts. \<forall>i<concurrent opts. \<forall>msg.
      analyzePagePerformance (pageLoads env b i) u = Inl msg \<longrightarrow>
      slotError b i msg \<in> set (errors (loadTest env u opts))) \<and>
   successRate (summary (loadTest env u opts)) \<noteq> None \<and>
   averageResponseTime (summary (loadTest env u opts)) \<noteq> None \<and>
   minResponseTime (summary (loadTest env u opts)) \<noteq> None \<and>
   maxResponseTime (summary (loadTest env u opts)) \<noteq> None \<and>
   ((\<forall>b<iterations opts. \<forall>i<concurrent opts.
       isl (analyzePagePerformance (pageLoads env b i) u)) \<longrightarrow>
      successRate (summary (loadTest env u opts)) = Some 0 \<and>
      successfulRequests (summary (loadTest env u opts)) = 0 \<and>
      failedRequests (summary (loadTest env u opts)) = concurrent opts * iterations opts \<and>
      length (errors (loadTest env u opts)) = concurrent opts * iterations opts \<and>
      averageResponseTime (summary (loadTest env u opts)) = Some 0 \<and>
      minResponseTime (summary (loadTest env u opts)) = Some 0 \<and>
      maxResponseTime (summary (loadTest env u opts)) = Some 0 \<and>
      loadRecommendations (loadTest env u opts) = [msgAllFailed])"
proof (intro conjI allI impI)
  fix b i msg
  assume "b < iterations opts" "i < concurrent opts"
    "analyzePagePerformance (pageLoads env b i) u = Inl msg"
  then show "slotError b i msg \<in> set (errors (loadTest env u opts))"
    by (rule slot_error_recorded)
next
  assume h: "\<forall>b<iterations opts. \<forall>i<concurrent opts.
               isl (analyzePagePerformance (pageLoads env b i) u)"
  note r = all_failed_result[OF h]
  show "successRate (summary (loadTest env u opts)) = Some 0" by (simp add: r(1))
  show "successfulRequests (summary (loadTest env u opts)) = 0" by (simp add: r(1))
  show "failedRequests (summary (loadTest env u opts)) = concurrent opts * iterations opts"
    by (simp add: r(1))
  show "length (errors (loadTest env u opts)) = concurrent opts * iterations opts" by (rule r(3))
  show "averageResponseTime (summary (loadTest env u opts)) = Some 0" by (simp add: r(1))
  show "minResponseTime (summary (loadTest env u opts)) = Some 0" by (simp add: r(1))
  show "maxResponseTime (summary (loadTest env u opts)) = Some 0" by (simp add: r(1))
  show "loadRecommendations (loadTest env u opts) = [msgAllFailed]" by (rule r(2))
qed (simp_all add: no_division_by_zero)

theorem loadTest_records_slot_failures_witness:
  "isl (analyzePagePerformance (pageLoads allFailing 0 0) ''https://playwright.dev'') \<and>
   isl (analyzePagePerformance (pageLoads allFailing 0 1) ''https://playwright.dev'') \<and>
   isl (analyzePagePerformance (pageLoads allFailing 1 0) ''https://playwright.dev'') \<and>
   isl (analyzePagePerformance (pageLoads allFailing 1 1) ''https://playwright.dev'') \<and>
   iterations twoByTwo = 2 \<and> concurrent twoByTwo = 2 \<and>
   (1::nat) < iterations twoByTwo \<and> (0::nat) < concurrent twoByTwo \<and>
   analyzePagePerformance (pageLoads allFailing 1 0) ''https://playwright.dev'' =
     Inl ''net::ERR_CONNECTION_REFUSED'' \<and>
   slotError 1 0 ''net::ERR_CONNECTION_REFUSED'' \<in>
     set (errors (loadTest allFailing ''https://playwright.dev'' twoByTwo)) \<and>
   successRate (summary (loadTest allFailing ''https://playwright.dev'' twoByTwo)) = Some 0 \<and>
   failedRequests (summary (loadTest allFailing ''https://playwright.dev'' twoByTwo)) = 4 \<and>
   loadRecommendations (loadTest allFailing ''https://playwright.dev'' twoByTwo) = [msgAllFailed]"
proof -
  note T = loadTest_records_slot_failures[where opts = twoByTwo and env = allFailing
      and u = "''https://playwright.dev''"]
  have h: "\<forall>b<iterations twoByTwo. \<forall>i<concurrent twoByTwo.
      isl (analyzePagePerformance (pageLoads allFailing b i) ''https://playwright.dev'')"
    by (rule all_failing_throws)
  have c: "(1::nat) < iterations twoByTwo" "(0::nat) < concurrent twoByTwo"
    "concurrent twoByTwo * iterations twoByTwo = 4"
    by (simp_all add: twoByTwo_def)
  have e: "analyzePagePerformance (pageLoads allFailing 1 0) ''https://playwright.dev'' =
     Inl ''net::ERR_CONNECTION_REFUSED''"
    by (simp add: allFailing_def refused_throws)
  have m: "slotError 1 0 ''net::ERR_CONNECTION_REFUSED'' \<in>
     set (errors (loadTest allFailing ''https://playwright.dev'' twoByTwo))"
    using T c(1,2) e by blast
  have s: "isl (analyzePagePerformance (pageLoads allFailing b i) ''https://playwright.dev'')"
    for b i by (simp add: allFailing_def refused_throws)
  have d: "iterations twoByTwo = 2" "concurrent twoByTwo = 2"
    by (simp_all add: twoByTwo_def)
  from T h c(3) m e c(1,2) s d show ?thesis by simp
qed

end
